theory Spec2Isabelle
  imports Complex_Main "HOL-Library.FSet"
begin

section \<open>JavaScript values used by the program\<close>

text \<open>
  A JavaScript Number is a finite value or one of NaN, +Infinity, -Infinity. Finite
  numbers are modelled by the real they denote (rounding is not modelled).
\<close>

datatype jsnum = Fin real | NaN | PosInf | NegInf

datatype js_error = TypeError | RangeError | SyntaxError | Error string

text \<open>\<open>x < r\<close> and \<open>x >= r\<close> of JavaScript against a finite number: every comparison with NaN is false.\<close>

fun js_lt :: "jsnum \<Rightarrow> real \<Rightarrow> bool" where
  "js_lt (Fin x) r = (x < r)"
| "js_lt NaN r = False"
| "js_lt PosInf r = False"
| "js_lt NegInf r = True"

fun js_ge :: "jsnum \<Rightarrow> real \<Rightarrow> bool" where
  "js_ge (Fin x) r = (x \<ge> r)"
| "js_ge NaN r = False"
| "js_ge PosInf r = True"
| "js_ge NegInf r = False"

fun js_gt :: "jsnum \<Rightarrow> real \<Rightarrow> bool" where
  "js_gt (Fin x) r = (x > r)"
| "js_gt NaN r = False"
| "js_gt PosInf r = True"
| "js_gt NegInf r = False"

text \<open>\<open>Number.isInteger\<close>: a finite number without fractional part.\<close>

fun Number_isInteger :: "jsnum \<Rightarrow> bool" where
  "Number_isInteger (Fin x) = (of_int \<lfloor>x\<rfloor> = x)"
| "Number_isInteger _ = False"

text \<open>
  \<open>arr[i]\<close> for a number \<open>i\<close>: the element when \<open>i\<close> is an integer index inside the
  array, \<open>undefined\<close> (None) otherwise; nothing is raised.
\<close>

fun array_get :: "'a list \<Rightarrow> jsnum \<Rightarrow> 'a option" where
  "array_get xs (Fin x) =
     (if of_int \<lfloor>x\<rfloor> = x \<and> 0 \<le> x \<and> nat \<lfloor>x\<rfloor> < length xs then Some (xs ! nat \<lfloor>x\<rfloor>) else None)"
| "array_get xs _ = None"

section \<open>audio-engine.js\<close>

text \<open>
  The Web Audio objects the engine programs. An AudioParam keeps its current value and
  the automation events scheduled on it, in call order. Scheduling an event does not
  change the current value: the platform updates it as audio time advances.
\<close>

datatype automation =
    SetValueAtTime real real
  | LinearRampToValueAtTime real real
  | SetTargetAtTime real real real

record audio_param =
  param_value :: real
  param_events :: "automation list"

text \<open>
  The scheduling methods of an AudioParam raise RangeError for a negative time (Inl),
  and append the event otherwise.
\<close>

definition setValueAtTime :: "real \<Rightarrow> real \<Rightarrow> audio_param \<Rightarrow> js_error + audio_param" where
  "setValueAtTime v t p =
     (if t < 0 then Inl RangeError
      else Inr (p\<lparr>param_events := param_events p @ [SetValueAtTime v t]\<rparr>))"

definition linearRampToValueAtTime :: "real \<Rightarrow> real \<Rightarrow> audio_param \<Rightarrow> js_error + audio_param" where
  "linearRampToValueAtTime v t p =
     (if t < 0 then Inl RangeError
      else Inr (p\<lparr>param_events := param_events p @ [LinearRampToValueAtTime v t]\<rparr>))"

text \<open>
  \<open>setTargetAtTime(target, startTime, timeConstant)\<close> for any number as target: a target
  that is not finite raises TypeError, before the times are looked at.
\<close>

fun setTargetAtTime :: "jsnum \<Rightarrow> real \<Rightarrow> real \<Rightarrow> audio_param \<Rightarrow> js_error + audio_param" where
  "setTargetAtTime (Fin v) t tc p =
     (if t < 0 \<or> tc < 0 then Inl RangeError
      else Inr (p\<lparr>param_events := param_events p @ [SetTargetAtTime v t tc]\<rparr>))"
| "setTargetAtTime NaN t tc p = Inl TypeError"
| "setTargetAtTime PosInf t tc p = Inl TypeError"
| "setTargetAtTime NegInf t tc p = Inl TypeError"

text \<open>\<open>Math.min(a, x)\<close> and \<open>Math.max(a, x)\<close> for a finite \<open>a\<close>: NaN if \<open>x\<close> is NaN.\<close>

fun Math_min :: "real \<Rightarrow> jsnum \<Rightarrow> jsnum" where
  "Math_min a (Fin x) = Fin (min a x)"
| "Math_min a NaN = NaN"
| "Math_min a PosInf = Fin a"
| "Math_min a NegInf = NegInf"

fun Math_max :: "real \<Rightarrow> jsnum \<Rightarrow> jsnum" where
  "Math_max a (Fin x) = Fin (max a x)"
| "Math_max a NaN = NaN"
| "Math_max a PosInf = PosInf"
| "Math_max a NegInf = Fin a"

text \<open>
  One voice: the oscillator created by \<open>playNote\<close> together with its gain node, which
  is connected to the master gain. \<open>osc_start\<close> and \<open>osc_stop\<close> are the times given
  to \<open>oscillator.start\<close> and \<open>oscillator.stop\<close>.
\<close>

record oscillator =
  osc_type :: string
  osc_frequency :: real
  osc_gain :: audio_param
  osc_start :: real
  osc_stop :: real

record envelope =
  attack :: real
  decay :: real
  sustain :: real
  release :: real

record audio_context =
  currentTime :: real

record audio_engine =
  audioContext :: "audio_context option"
  masterGain :: "audio_param option"
  isInitialized :: bool
  activeOscillators :: "oscillator list"
  envelope :: envelope
  oscillatorType :: string
  defaultVolume :: real

text \<open>The engine as the constructor leaves it.\<close>

definition new_AudioEngine :: audio_engine where
  "new_AudioEngine =
     \<lparr>audioContext = None, masterGain = None, isInitialized = False, activeOscillators = [],
      envelope = \<lparr>attack = 0.005, decay = 0.1, sustain = 0.3, release = 1.2\<rparr>,
      oscillatorType = ''sine'', defaultVolume = 0.7\<rparr>"

text \<open>
  \<open>AudioEngine.initialize\<close> where the platform offers an AudioContext whose clock reads \<open>t\<close>: the
  master gain is created with the default volume.
\<close>

definition AudioEngine_initialize :: "real \<Rightarrow> audio_engine \<Rightarrow> audio_engine" where
  "AudioEngine_initialize t e =
     (if isInitialized e then e
      else e\<lparr>audioContext := Some \<lparr>currentTime = t\<rparr>,
             masterGain := Some \<lparr>param_value = defaultVolume e, param_events = []\<rparr>,
             isInitialized := True\<rparr>)"

text \<open>
  The envelope of \<open>playNote\<close>: the five scheduling calls on the gain of the new voice, in
  the order of the source. The first call that raises ends the schedule.
\<close>

definition schedule_envelope :: "envelope \<Rightarrow> real \<Rightarrow> real \<Rightarrow> js_error + audio_param" where
  "schedule_envelope env now duration =
     (let attackEnd = now + attack env;
          decayEnd = attackEnd + decay env;
          releaseStart = now + duration;
          releaseEnd = releaseStart + release env
      in case setValueAtTime 0 now \<lparr>param_value = 0, param_events = []\<rparr> of
           Inl err \<Rightarrow> Inl err
         | Inr g1 \<Rightarrow>
        (case linearRampToValueAtTime 1.0 attackEnd g1 of
           Inl err \<Rightarrow> Inl err
         | Inr g2 \<Rightarrow>
        (case linearRampToValueAtTime (sustain env) decayEnd g2 of
           Inl err \<Rightarrow> Inl err
         | Inr g3 \<Rightarrow>
        (case setValueAtTime (sustain env) releaseStart g3 of
           Inl err \<Rightarrow> Inl err
         | Inr g4 \<Rightarrow> linearRampToValueAtTime 0 releaseEnd g4))))"

text \<open>
  \<open>AudioEngine.playNote(frequency, duration)\<close>. The result is the returned success status and the
  engine afterwards. Whatever is raised inside the \<open>try\<close> block (a missing master gain,
  a negative time given to the platform) is caught and answered with \<open>false\<close>; the voice
  is then not tracked.
\<close>

definition AudioEngine_playNote :: "real \<Rightarrow> real \<Rightarrow> audio_engine \<Rightarrow> bool \<times> audio_engine" where
  "AudioEngine_playNote frequency duration e =
     (case audioContext e of
        None \<Rightarrow> (False, e)
      | Some ctx \<Rightarrow>
          if \<not> isInitialized e then (False, e)
          else
            (let now = currentTime ctx in
             case masterGain e of
               None \<Rightarrow> (False, e)
             | Some mg \<Rightarrow>
                 (case schedule_envelope (envelope e) now duration of
                    Inl err \<Rightarrow> (False, e)
                  | Inr g \<Rightarrow>
                      let releaseEnd = now + duration + release (envelope e) in
                      if now < 0 \<or> releaseEnd < 0 then (False, e)
                      else (True, e\<lparr>activeOscillators := activeOscillators e @
                              [\<lparr>osc_type = oscillatorType e, osc_frequency = frequency,
                                osc_gain = g, osc_start = now, osc_stop = releaseEnd\<rparr>]\<rparr>))))"

text \<open>
  \<open>AudioEngine.setVolume(volume)\<close> for any number: clamp, then schedule a smoothed approach
  of the master gain. Nothing is caught here: reading \<open>currentTime\<close> of a missing context
  and what \<open>setTargetAtTime\<close> raises leave the function as exceptions.
\<close>

definition AudioEngine_setVolume :: "jsnum \<Rightarrow> audio_engine \<Rightarrow> (js_error + unit) \<times> audio_engine" where
  "AudioEngine_setVolume volume e =
     (case masterGain e of
        None \<Rightarrow> (Inr (), e)
      | Some mg \<Rightarrow>
          if \<not> isInitialized e then (Inr (), e)
          else
            (let clampedVolume = Math_max 0 (Math_min 1 volume) in
             case audioContext e of
               None \<Rightarrow> (Inl TypeError, e)
             | Some ctx \<Rightarrow>
                 (let now = currentTime ctx in
                  case setTargetAtTime clampedVolume now 0.01 mg of
                    Inl err \<Rightarrow> (Inl err, e)
                  | Inr mg' \<Rightarrow> (Inr (), e\<lparr>masterGain := Some mg'\<rparr>))))"

text \<open>\<open>AudioEngine.getVolume()\<close>: the current value of the master gain, or the default volume.\<close>

definition AudioEngine_getVolume :: "audio_engine \<Rightarrow> real" where
  "AudioEngine_getVolume e =
     (case masterGain e of
        None \<Rightarrow> defaultVolume e
      | Some mg \<Rightarrow> if \<not> isInitialized e then defaultVolume e else param_value mg)"

section \<open>xylophone.js\<close>

record note_config =
  name :: string
  frequency :: real

text \<open>
  \<open>activeNotes\<close> is a JavaScript Set of note indices: a finite set, whose \<open>size\<close> is
  its cardinality. \<open>pendingRemovals\<close> are the timers set by
  \<open>playNote\<close>: the delay in milliseconds and the index the timer will delete.
\<close>

record xylophone =
  notes_list :: "note_config list"
  noteDuration :: real
  activeNotes :: "jsnum fset"
  maxPolyphony :: real
  pendingRemovals :: "(real \<times> jsnum) list"

definition new_Xylophone :: xylophone where
  "new_Xylophone =
     \<lparr>notes_list =
        [\<lparr>name = ''C4'', frequency = 261.63\<rparr>, \<lparr>name = ''D4'', frequency = 293.66\<rparr>,
         \<lparr>name = ''E4'', frequency = 329.63\<rparr>, \<lparr>name = ''F4'', frequency = 349.23\<rparr>,
         \<lparr>name = ''G4'', frequency = 392.00\<rparr>, \<lparr>name = ''A4'', frequency = 440.00\<rparr>,
         \<lparr>name = ''B4'', frequency = 493.88\<rparr>, \<lparr>name = ''C5'', frequency = 523.25\<rparr>,
         \<lparr>name = ''D5'', frequency = 587.33\<rparr>, \<lparr>name = ''E5'', frequency = 659.25\<rparr>,
         \<lparr>name = ''F5'', frequency = 698.46\<rparr>],
      noteDuration = 2.0, activeNotes = {||}, maxPolyphony = 20, pendingRemovals = []\<rparr>"

text \<open>\<open>isValidNoteIndex(noteIndex)\<close>.\<close>

definition isValidNoteIndex :: "jsnum \<Rightarrow> xylophone \<Rightarrow> bool" where
  "isValidNoteIndex noteIndex x =
     (Number_isInteger noteIndex \<and> js_ge noteIndex 0 \<and> js_lt noteIndex (real (length (notes_list x))))"

text \<open>
  \<open>Xylophone.playNote(noteIndex)\<close> on the engine and the xylophone. \<open>Inr b\<close> is the returned
  status, \<open>Inl err\<close> an exception that leaves the function: \<open>note.frequency\<close> raises
  TypeError when \<open>this.notes[noteIndex]\<close> is \<open>undefined\<close>.
\<close>

definition Xylophone_playNote ::
  "jsnum \<Rightarrow> audio_engine \<times> xylophone \<Rightarrow> (js_error + bool) \<times> audio_engine \<times> xylophone" where
  "Xylophone_playNote noteIndex ex =
     (let e = fst ex; x = snd ex in
      if js_lt noteIndex 0 \<or> js_ge noteIndex (real (length (notes_list x))) then (Inr False, e, x)
      else if real (fcard (activeNotes x)) \<ge> maxPolyphony x then (Inr False, e, x)
      else
        (case array_get (notes_list x) noteIndex of
           None \<Rightarrow> (Inl TypeError, e, x)
         | Some note \<Rightarrow>
             (case AudioEngine_playNote (frequency note) (noteDuration x) e of
                (success, e') \<Rightarrow>
                  if success
                  then (Inr True, e',
                        x\<lparr>activeNotes := finsert noteIndex (activeNotes x),
                          pendingRemovals := pendingRemovals x @ [(noteDuration x * 1000, noteIndex)]\<rparr>)
                  else (Inr False, e', x))))"

text \<open>The timer callback of \<open>playNote\<close>: the oldest pending timer fires.\<close>

definition removal_fires :: "xylophone \<Rightarrow> xylophone" where
  "removal_fires x =
     (case pendingRemovals x of
        [] \<Rightarrow> x
      | (ms, noteIndex) # rest \<Rightarrow>
          x\<lparr>activeNotes := activeNotes x |-| {|noteIndex|}, pendingRemovals := rest\<rparr>)"

text \<open>\<open>setMaxPolyphony(maxNotes)\<close>.\<close>

definition setMaxPolyphony :: "real \<Rightarrow> xylophone \<Rightarrow> xylophone" where
  "setMaxPolyphony maxNotes x =
     (if maxNotes > 0 \<and> maxNotes \<le> 50 then x\<lparr>maxPolyphony := maxNotes\<rparr> else x)"

section \<open>controls.js\<close>

subsection \<open>Values, elements and state\<close>

text \<open>
  The values \<open>JSON.parse\<close> can return and the recorder stores. An object is the list of
  its own properties, in order.
\<close>

datatype jsval =
    JNull
  | JBool bool
  | JNum jsnum
  | JStr string
  | JArr "jsval list"
  | JObj "(string \<times> jsval) list"

text \<open>
  \<open>v.k\<close> for one of the property names \<open>noteIndex\<close> and \<open>delay\<close>: TypeError on
  \<open>null\<close>, the property of an object, \<open>undefined\<close> (None) on every other value.
\<close>

fun get_prop :: "jsval \<Rightarrow> string \<Rightarrow> js_error + jsval option" where
  "get_prop JNull k = Inl TypeError"
| "get_prop (JObj kvs) k = Inr (map_of kvs k)"
| "get_prop (JBool b) k = Inr None"
| "get_prop (JNum n) k = Inr None"
| "get_prop (JStr s) k = Inr None"
| "get_prop (JArr vs) k = Inr None"

text \<open>\<open>typeof v === 'number'\<close>, where None is \<open>undefined\<close>.\<close>

fun typeof_number :: "jsval option \<Rightarrow> bool" where
  "typeof_number (Some (JNum n)) = True"
| "typeof_number _ = False"

text \<open>
  A button of the page: its \<open>disabled\<close> flag, whether it carries the class the module
  toggles on it (\<open>recording\<close> on the record button, \<open>playing\<close> on the play button), and
  the caption its \<open>innerHTML\<close> shows.
\<close>

record button =
  disabled :: bool
  highlighted :: bool
  caption :: string

text \<open>The texts \<open>updateRecordingStatus\<close> is called with.\<close>

datatype status_text =
    Status_Recording
  | Status_Recording_count nat
  | Status_Recorded nat
  | Status_No_notes
  | Status_Playing
  | Status_Imported nat
  | Status_empty

text \<open>
  The recorder part of a \<open>Controls\<close> object. An element is None while the field is
  \<open>null\<close>: before \<open>initialize()\<close>, or when the page has no such element.
  \<open>listening\<close> says that the \<open>notePlayed\<close> handler is registered on the document.
\<close>

record controls =
  recordBtn :: "button option"
  playBtn :: "button option"
  clearBtn :: "button option"
  recordingStatus :: "status_text option"
  isRecording :: bool
  isPlaying :: bool
  recordedSequence :: "jsval list"
  recordingStartTime :: real
  maxRecordingLength :: real
  playbackTimeout :: "nat option"
  listening :: bool

definition new_Controls :: controls where
  "new_Controls =
     \<lparr>recordBtn = None, playBtn = None, clearBtn = None, recordingStatus = None,
      isRecording = False, isPlaying = False, recordedSequence = [], recordingStartTime = 0,
      maxRecordingLength = 100, playbackTimeout = None, listening = False\<rparr>"

text \<open>
  A statement either completes (\<open>Inr\<close>) or raises (\<open>Inl\<close>); the state is the one reached
  at that point. \<open>and_then\<close> runs the next statement unless the first one raised.
\<close>

definition and_then ::
  "(js_error + unit) \<times> 's \<Rightarrow> ('s \<Rightarrow> (js_error + 'a) \<times> 's) \<Rightarrow> (js_error + 'a) \<times> 's" where
  "and_then r k = (case r of (Inl err, s) \<Rightarrow> (Inl err, s) | (Inr u, s) \<Rightarrow> k s)"

text \<open>Writing to a property of an element raises TypeError when the element is \<open>null\<close>.\<close>

definition on_recordBtn :: "(button \<Rightarrow> button) \<Rightarrow> controls \<Rightarrow> (js_error + unit) \<times> controls" where
  "on_recordBtn f c =
     (case recordBtn c of
        None \<Rightarrow> (Inl TypeError, c)
      | Some b \<Rightarrow> (Inr (), c\<lparr>recordBtn := Some (f b)\<rparr>))"

definition on_playBtn :: "(button \<Rightarrow> button) \<Rightarrow> controls \<Rightarrow> (js_error + unit) \<times> controls" where
  "on_playBtn f c =
     (case playBtn c of
        None \<Rightarrow> (Inl TypeError, c)
      | Some b \<Rightarrow> (Inr (), c\<lparr>playBtn := Some (f b)\<rparr>))"

definition on_clearBtn :: "(button \<Rightarrow> button) \<Rightarrow> controls \<Rightarrow> (js_error + unit) \<times> controls" where
  "on_clearBtn f c =
     (case clearBtn c of
        None \<Rightarrow> (Inl TypeError, c)
      | Some b \<Rightarrow> (Inr (), c\<lparr>clearBtn := Some (f b)\<rparr>))"

text \<open>\<open>updateRecordingStatus(message)\<close>.\<close>

definition updateRecordingStatus :: "status_text \<Rightarrow> controls \<Rightarrow> controls" where
  "updateRecordingStatus message c =
     (case recordingStatus c of
        None \<Rightarrow> c
      | Some old \<Rightarrow> c\<lparr>recordingStatus := Some message\<rparr>)"

subsection \<open>Recording\<close>

text \<open>\<open>startRecording()\<close>, where \<open>Date.now()\<close> reads \<open>now\<close>.\<close>

definition startRecording :: "real \<Rightarrow> controls \<Rightarrow> (js_error + unit) \<times> controls" where
  "startRecording now c =
     (if isPlaying c then (Inr (), c)
      else
        and_then
          (on_recordBtn (\<lambda>b. b\<lparr>highlighted := True, caption := ''Stop''\<rparr>)
             (c\<lparr>isRecording := True, recordedSequence := [], recordingStartTime := now\<rparr>))
          (\<lambda>c. (Inr (), updateRecordingStatus Status_Recording c)))"

text \<open>\<open>stopRecording()\<close>.\<close>

definition stopRecording :: "controls \<Rightarrow> (js_error + unit) \<times> controls" where
  "stopRecording c =
     (if \<not> isRecording c then (Inr (), c)
      else
        and_then
          (on_recordBtn (\<lambda>b. b\<lparr>highlighted := False, caption := ''Record''\<rparr>)
             (c\<lparr>isRecording := False\<rparr>))
          (\<lambda>c. if length (recordedSequence c) > 0
               then and_then (on_playBtn (\<lambda>b. b\<lparr>disabled := False\<rparr>) c)
                      (\<lambda>c. and_then (on_clearBtn (\<lambda>b. b\<lparr>disabled := False\<rparr>) c)
                        (\<lambda>c. (Inr (),
                           updateRecordingStatus (Status_Recorded (length (recordedSequence c))) c)))
               else (Inr (), updateRecordingStatus Status_No_notes c)))"

text \<open>The \<open>detail\<close> of a \<open>notePlayed\<close> event, as far as the recorder reads it.\<close>

record note_detail =
  detail_noteIndex :: jsnum
  detail_timestamp :: real

text \<open>\<open>recordNote(noteDetail)\<close>.\<close>

definition recordNote :: "note_detail \<Rightarrow> controls \<Rightarrow> (js_error + unit) \<times> controls" where
  "recordNote noteDetail c =
     (if \<not> isRecording c then (Inr (), c)
      else if real (length (recordedSequence c)) \<ge> maxRecordingLength c then stopRecording c
      else
        (let delay = detail_timestamp noteDetail - recordingStartTime c;
             c1 = c\<lparr>recordedSequence := recordedSequence c @
                      [JObj [(''noteIndex'', JNum (detail_noteIndex noteDetail)),
                             (''delay'', JNum (Fin delay))]]\<rparr>
         in (Inr (),
             updateRecordingStatus (Status_Recording_count (length (recordedSequence c1))) c1)))"

text \<open>\<open>setMaxRecordingLength(maxLength)\<close>.\<close>

definition setMaxRecordingLength :: "real \<Rightarrow> controls \<Rightarrow> controls" where
  "setMaxRecordingLength maxLength c =
     (if maxLength > 0 \<and> maxLength \<le> 500 then c\<lparr>maxRecordingLength := maxLength\<rparr> else c)"

subsection \<open>Playback controls\<close>

text \<open>
  \<open>stopPlayback()\<close>. Clearing the pending timer means that a playback loop waiting on it
  is never resumed.
\<close>

definition stopPlayback :: "controls \<Rightarrow> (js_error + unit) \<times> controls" where
  "stopPlayback c =
     (if \<not> isPlaying c then (Inr (), c)
      else
        and_then
          (on_playBtn (\<lambda>b. b\<lparr>highlighted := False, caption := ''Play''\<rparr>)
             (c\<lparr>isPlaying := False, playbackTimeout := None\<rparr>))
          (\<lambda>c. and_then (on_recordBtn (\<lambda>b. b\<lparr>disabled := False\<rparr>) c)
            (\<lambda>c. and_then (on_clearBtn (\<lambda>b. b\<lparr>disabled := False\<rparr>) c)
              (\<lambda>c. (Inr (),
                 updateRecordingStatus (Status_Recorded (length (recordedSequence c))) c)))))"

text \<open>\<open>clearRecording()\<close>.\<close>

definition clearRecording :: "controls \<Rightarrow> (js_error + unit) \<times> controls" where
  "clearRecording c =
     and_then (if isPlaying c then stopPlayback c else (Inr (), c))
       (\<lambda>c. and_then (on_playBtn (\<lambda>b. b\<lparr>disabled := True\<rparr>) (c\<lparr>recordedSequence := []\<rparr>))
         (\<lambda>c. and_then (on_clearBtn (\<lambda>b. b\<lparr>disabled := True\<rparr>) c)
           (\<lambda>c. (Inr (), updateRecordingStatus Status_empty c))))"

text \<open>
  \<open>playRecording()\<close> up to the call of \<open>playSequenceWithTiming\<close>. \<open>Inr True\<close>: playback
  has been started; \<open>Inr False\<close>: the call returned at one of its two guards.
\<close>

definition playRecording_begin :: "controls \<Rightarrow> (js_error + bool) \<times> controls" where
  "playRecording_begin c =
     (if length (recordedSequence c) = 0 then (Inr False, c)
      else if isPlaying c then (Inr False, c)
      else
        and_then
          (on_playBtn (\<lambda>b. b\<lparr>highlighted := True, caption := ''Stop''\<rparr>) (c\<lparr>isPlaying := True\<rparr>))
          (\<lambda>c. and_then (on_recordBtn (\<lambda>b. b\<lparr>disabled := True\<rparr>) c)
            (\<lambda>c. and_then (on_clearBtn (\<lambda>b. b\<lparr>disabled := True\<rparr>) c)
              (\<lambda>c. (Inr True, updateRecordingStatus Status_Playing c)))))"

subsection \<open>Export and import\<close>


text \<open>The validation loop of \<open>importSequence\<close>.\<close>

fun validate_notes :: "jsval list \<Rightarrow> js_error + unit" where
  "validate_notes [] = Inr ()"
| "validate_notes (note # rest) =
     (case get_prop note ''noteIndex'' of
        Inl err \<Rightarrow> Inl err
      | Inr noteIndex \<Rightarrow>
          if \<not> typeof_number noteIndex then Inl (Error ''Invalid note format'')
          else
            (case get_prop note ''delay'' of
               Inl err \<Rightarrow> Inl err
             | Inr delay \<Rightarrow>
                 if \<not> typeof_number delay then Inl (Error ''Invalid note format'')
                 else validate_notes rest))"

text \<open>
  \<open>importSequence(jsonString)\<close>: the returned status and the state. Everything raised
  inside the \<open>try\<close> block is answered with \<open>false\<close>, from the state reached by then.
\<close>

definition importSequence :: "(string \<Rightarrow> jsval option) \<Rightarrow> string \<Rightarrow> controls \<Rightarrow> bool \<times> controls" where
  "importSequence JSON_parse jsonString c =
     (case JSON_parse jsonString of
        None \<Rightarrow> (False, c)
      | Some (JArr sequence) \<Rightarrow>
          (case validate_notes sequence of
             Inl err \<Rightarrow> (False, c)
           | Inr u \<Rightarrow>
               (let c1 = c\<lparr>recordedSequence := sequence\<rparr> in
                if length (recordedSequence c1) > 0
                then
                  (case and_then (on_playBtn (\<lambda>b. b\<lparr>disabled := False\<rparr>) c1)
                          (\<lambda>c. and_then (on_clearBtn (\<lambda>b. b\<lparr>disabled := False\<rparr>) c)
                            (\<lambda>c. (Inr (),
                               updateRecordingStatus
                                 (Status_Imported (length (recordedSequence c))) c))) of
                     (Inl err, c2) \<Rightarrow> (False, c2)
                   | (Inr u, c2) \<Rightarrow> (True, c2))
                else (True, c1)))
      | Some other \<Rightarrow> (False, c))"

section \<open>input-handler.js\<close>

text \<open>
  The three singletons a bar activation touches. The visual feedback module keeps its
  own state (bar highlights), which nothing here reads; it is left out.
\<close>

record world =
  engine :: audio_engine
  xylo :: xylophone
  ctl :: controls

text \<open>The \<open>notePlayed\<close> handler that \<open>Controls.setupNoteListener\<close> registers.\<close>

definition notePlayedHandler :: "note_detail \<Rightarrow> controls \<Rightarrow> (js_error + unit) \<times> controls" where
  "notePlayedHandler detail c = (if isRecording c then recordNote detail c else (Inr (), c))"

text \<open>
  \<open>emitNoteEvent(noteIndex)\<close>, where \<open>Date.now()\<close> reads \<open>now\<close>. \<open>dispatchEvent\<close> runs the
  registered handler; what a handler raises is reported by the platform and does not
  reach the caller.
\<close>

definition emitNoteEvent :: "real \<Rightarrow> jsnum \<Rightarrow> world \<Rightarrow> world" where
  "emitNoteEvent now noteIndex w =
     (if listening (ctl w)
      then w\<lparr>ctl := snd (notePlayedHandler
                          \<lparr>detail_noteIndex = noteIndex, detail_timestamp = now\<rparr> (ctl w))\<rparr>
      else w)"

text \<open>\<open>handleBarActivation(noteIndex)\<close> for a number.\<close>

definition handleBarActivation :: "real \<Rightarrow> jsnum \<Rightarrow> world \<Rightarrow> (js_error + unit) \<times> world" where
  "handleBarActivation now noteIndex w =
     (if \<not> isValidNoteIndex noteIndex (xylo w) then (Inr (), w)
      else
        (case Xylophone_playNote noteIndex (engine w, xylo w) of
           (Inl err, e, x) \<Rightarrow> (Inl err, w\<lparr>engine := e, xylo := x\<rparr>)
         | (Inr success, e, x) \<Rightarrow>
             if success then (Inr (), emitNoteEvent now noteIndex (w\<lparr>engine := e, xylo := x\<rparr>))
             else (Inr (), w\<lparr>engine := e, xylo := x\<rparr>)))"

text \<open>
  \<open>triggerBar(noteIndex)\<close> for any stored value, \<open>undefined\<close> included: only a number can
  pass \<open>isValidNoteIndex\<close>, whose first test is \<open>Number.isInteger\<close>.
\<close>

fun triggerBar :: "real \<Rightarrow> jsval option \<Rightarrow> world \<Rightarrow> (js_error + unit) \<times> world" where
  "triggerBar now (Some (JNum noteIndex)) w = handleBarActivation now noteIndex w"
| "triggerBar now other w = (Inr (), w)"

section \<open>Playback of the recorded sequence\<close>

text \<open>\<open>startTime + note.delay\<close> and \<open>targetTime - currentTime\<close> for a number \<open>note.delay\<close>.\<close>

fun num_plus :: "real \<Rightarrow> jsnum \<Rightarrow> jsnum" where
  "num_plus a (Fin b) = Fin (a + b)"
| "num_plus a NaN = NaN"
| "num_plus a PosInf = PosInf"
| "num_plus a NegInf = NegInf"

fun num_minus :: "jsnum \<Rightarrow> real \<Rightarrow> jsnum" where
  "num_minus (Fin a) b = Fin (a - b)"
| "num_minus NaN b = NaN"
| "num_minus PosInf b = PosInf"
| "num_minus NegInf b = NegInf"

text \<open>
  What the playback loop does that can be observed: it sets a timer for \<open>waitTime\<close>
  milliseconds, or calls \<open>inputHandler.triggerBar\<close> with \<open>note.noteIndex\<close>.
\<close>

datatype play_action = Wait jsnum | TriggerBar "jsval option"

text \<open>
  How the loop ends: it returns (after the last note, or at \<open>break\<close>); it raises; it stays
  suspended in an \<open>await\<close> whose timer \<open>stopPlayback\<close> has cleared; or it meets a stored
  \<open>delay\<close> that is not a number, where JavaScript would coerce the operands of \<open>+\<close> (a
  case left out here: \<open>recordNote\<close> and \<open>importSequence\<close> store numbers only).
\<close>

datatype loop_end = Returned | Raised js_error | Suspended | Delay_not_a_number

text \<open>
  What the loop reads from outside: \<open>Date.now()\<close> at the top of iteration \<open>i\<close>, \<open>Date.now()\<close>
  when the note of iteration \<open>i\<close> is triggered, and whether \<open>stopPlayback\<close> is called while
  iteration \<open>i\<close> waits. Other calls made during a wait are not covered.
\<close>

record play_env =
  dateNow :: "nat \<Rightarrow> real"
  triggerNow :: "nat \<Rightarrow> real"
  stopDuringWait :: "nat \<Rightarrow> bool"

text \<open>The end of the loop body: \<open>if (this.isPlaying) inputHandler.triggerBar(note.noteIndex)\<close>.\<close>

definition trigger_if_playing ::
  "real \<Rightarrow> jsval option \<Rightarrow> world \<Rightarrow> play_action list \<times> (js_error + unit) \<times> world" where
  "trigger_if_playing now noteIndex w =
     (if isPlaying (ctl w)
      then (case triggerBar now noteIndex w of (r, w') \<Rightarrow> ([TriggerBar noteIndex], r, w'))
      else ([], Inr (), w))"

text \<open>The bound of the loop: the notes left, and the room left in a running recording.\<close>

definition loop_measure :: "nat \<Rightarrow> controls \<Rightarrow> nat" where
  "loop_measure i c =
     (length (recordedSequence c) - i) +
     (if isRecording c
      then 2 * (nat \<lceil>maxRecordingLength c\<rceil> - length (recordedSequence c)) + 1 else 0)"

text \<open>Each iteration lowers the bound, even when the triggered note is recorded.\<close>

lemma stopRecording_seq: "recordedSequence (snd (stopRecording c)) = recordedSequence c"
  by (auto simp: stopRecording_def and_then_def on_recordBtn_def on_playBtn_def on_clearBtn_def updateRecordingStatus_def split: option.splits sum.splits)

lemma stopRecording_isRecording: "isRecording (snd (stopRecording c)) = False"
  by (auto simp: stopRecording_def and_then_def on_recordBtn_def on_playBtn_def on_clearBtn_def updateRecordingStatus_def split: option.splits sum.splits)

lemma loop_measure_Suc:
  "i < length (recordedSequence c) \<Longrightarrow> loop_measure (Suc i) c < loop_measure i c"
  by (simp add: loop_measure_def)

lemma recordNote_measure:
  assumes "i < length (recordedSequence c)"
  shows "loop_measure (Suc i) (snd (recordNote d c)) < loop_measure i c"
proof (cases "isRecording c")
  case False
  then show ?thesis using assms by (simp add: recordNote_def loop_measure_Suc)
next
  case rec: True
  show ?thesis
  proof (cases "real (length (recordedSequence c)) \<ge> maxRecordingLength c")
    case True
    then have "snd (recordNote d c) = snd (stopRecording c)"
      using rec by (simp add: recordNote_def)
    then show ?thesis
      using assms rec
      by (simp add: loop_measure_def stopRecording_seq stopRecording_isRecording)
  next
    case False
    then have room: "length (recordedSequence c) < nat \<lceil>maxRecordingLength c\<rceil>"
      by linarith
    have "recordedSequence (snd (recordNote d c)) =
            recordedSequence c @ [JObj [(''noteIndex'', JNum (detail_noteIndex d)),
              (''delay'', JNum (Fin (detail_timestamp d - recordingStartTime c)))]]"
      and "isRecording (snd (recordNote d c))"
      and "maxRecordingLength (snd (recordNote d c)) = maxRecordingLength c"
      using rec False
      by (simp_all add: recordNote_def Let_def updateRecordingStatus_def split: option.splits)
    then show ?thesis
      using assms rec room by (simp add: loop_measure_def)
  qed
qed

lemma notePlayedHandler_measure:
  "i < length (recordedSequence c) \<Longrightarrow>
   loop_measure (Suc i) (snd (notePlayedHandler d c)) < loop_measure i c"
  by (simp add: notePlayedHandler_def recordNote_measure loop_measure_Suc)

lemma emitNoteEvent_measure:
  "i < length (recordedSequence (ctl w)) \<Longrightarrow>
   loop_measure (Suc i) (ctl (emitNoteEvent now n w)) < loop_measure i (ctl w)"
  by (simp add: emitNoteEvent_def notePlayedHandler_measure loop_measure_Suc)

lemma handleBarActivation_measure:
  assumes i: "i < length (recordedSequence (ctl w))"
  shows "loop_measure (Suc i) (ctl (snd (handleBarActivation now n w))) < loop_measure i (ctl w)"
proof -
  have plain: "loop_measure (Suc i) (ctl w) < loop_measure i (ctl w)"
    using i by (rule loop_measure_Suc)
  have emit: "loop_measure (Suc i) (ctl (emitNoteEvent now n (w\<lparr>engine := e, xylo := x\<rparr>)))
      < loop_measure i (ctl w)" for e x
    using emitNoteEvent_measure [of i "w\<lparr>engine := e, xylo := x\<rparr>" now n] i by simp
  show ?thesis
    using plain emit
    by (auto simp: handleBarActivation_def split: prod.splits sum.splits)
qed

lemma triggerBar_measure:
  "i < length (recordedSequence (ctl w)) \<Longrightarrow>
   loop_measure (Suc i) (ctl (snd (triggerBar now v w))) < loop_measure i (ctl w)"
  by (cases "(now, v, w)" rule: triggerBar.cases)
     (simp_all add: handleBarActivation_measure loop_measure_Suc)

lemma trigger_if_playing_measure:
  "i < length (recordedSequence (ctl w)) \<Longrightarrow>
   loop_measure (Suc i) (ctl (snd (snd (trigger_if_playing now v w)))) < loop_measure i (ctl w)"
  using triggerBar_measure [of i w now v]
  by (auto simp: trigger_if_playing_def loop_measure_Suc split: prod.splits)

lemma loop_step_measure:
  assumes "i < length (recordedSequence (ctl w))"
    and "(acts, r, w2) =
           trigger_if_playing now v
             (if b then w\<lparr>ctl := (ctl w)\<lparr>playbackTimeout := Some i\<rparr>\<rparr> else w)"
  shows "loop_measure (Suc i) (ctl w2) < loop_measure i (ctl w)"
proof -
  define w1 where "w1 = (if b then w\<lparr>ctl := (ctl w)\<lparr>playbackTimeout := Some i\<rparr>\<rparr> else w)"
  have "loop_measure i (ctl w1) = loop_measure i (ctl w)"
    and "i < length (recordedSequence (ctl w1))"
    using assms(1) by (simp_all add: loop_measure_def w1_def)
  moreover have "w2 = snd (snd (trigger_if_playing now v w1))"
    using assms(2) [symmetric] by (simp add: w1_def)
  ultimately show ?thesis
    using trigger_if_playing_measure [of i w1 now v] by simp
qed

text \<open>
  The loop of \<open>playSequenceWithTiming\<close> from iteration \<open>i\<close> on, with \<open>startTime\<close> read
  before the loop: the actions taken, how the loop ends, and the state then. The length
  and the notes of \<open>this.recordedSequence\<close> are read from the current state in every
  iteration, as the source does.
\<close>

function playLoop :: "play_env \<Rightarrow> real \<Rightarrow> nat \<Rightarrow> world \<Rightarrow> play_action list \<times> loop_end \<times> world" where
  "playLoop env startTime i w =
     (if \<not> i < length (recordedSequence (ctl w)) then ([], Returned, w)
      else if \<not> isPlaying (ctl w) then ([], Returned, w)
      else
        (let note = recordedSequence (ctl w) ! i in
         case get_prop note ''delay'' of
           Inl err \<Rightarrow> ([], Raised err, w)
         | Inr (Some (JNum delay)) \<Rightarrow>
             (let targetTime = num_plus startTime delay;
                  currentTime = dateNow env i;
                  waitTime = num_minus targetTime currentTime;
                  waits = (if js_gt waitTime 0 then [Wait waitTime] else []);
                  w1 = (if js_gt waitTime 0
                        then w\<lparr>ctl := (ctl w)\<lparr>playbackTimeout := Some i\<rparr>\<rparr> else w)
              in if js_gt waitTime 0 \<and> stopDuringWait env i
                 then (waits, Suspended, w1\<lparr>ctl := snd (stopPlayback (ctl w1))\<rparr>)
                 else
                   (case get_prop note ''noteIndex'' of
                      Inl err \<Rightarrow> (waits, Raised err, w1)
                    | Inr noteIndex \<Rightarrow>
                        (case trigger_if_playing (triggerNow env i) noteIndex w1 of
                           (acts, Inl err, w2) \<Rightarrow> (waits @ acts, Raised err, w2)
                         | (acts, Inr u, w2) \<Rightarrow>
                             (case playLoop env startTime (Suc i) w2 of
                                (rest, how, w3) \<Rightarrow> (waits @ acts @ rest, how, w3)))))
         | Inr other \<Rightarrow> ([], Delay_not_a_number, w)))"
  by pat_completeness auto
termination
  apply (relation "measure (\<lambda>(env, startTime, i, w). loop_measure i (ctl w))")
   apply simp
  apply clarsimp
  apply (erule loop_step_measure)
  apply assumption
  done

declare playLoop.simps [simp del]


text \<open>\<open>playSequenceWithTiming()\<close>, where \<open>Date.now()\<close> reads \<open>startTime\<close> at its start.\<close>

definition playSequenceWithTiming ::
  "play_env \<Rightarrow> real \<Rightarrow> world \<Rightarrow> play_action list \<times> loop_end \<times> world" where
  "playSequenceWithTiming env startTime w = playLoop env startTime 0 w"

text \<open>
  \<open>playRecording()\<close> as a whole. What the loop raises is caught and logged; \<open>finally\<close> calls
  \<open>stopPlayback\<close> once the loop has returned or raised, and never when it stays suspended.
\<close>

definition playRecording ::
  "play_env \<Rightarrow> real \<Rightarrow> world \<Rightarrow> play_action list \<times> loop_end \<times> world" where
  "playRecording env startTime w =
     (case playRecording_begin (ctl w) of
        (Inl err, c) \<Rightarrow> ([], Raised err, w\<lparr>ctl := c\<rparr>)
      | (Inr False, c) \<Rightarrow> ([], Returned, w\<lparr>ctl := c\<rparr>)
      | (Inr True, c) \<Rightarrow>
          (case playSequenceWithTiming env startTime (w\<lparr>ctl := c\<rparr>) of
             (acts, Suspended, w1) \<Rightarrow> (acts, Suspended, w1)
           | (acts, Delay_not_a_number, w1) \<Rightarrow> (acts, Delay_not_a_number, w1)
           | (acts, how, w1) \<Rightarrow>
               (case stopPlayback (ctl w1) of
                  (Inl err, c1) \<Rightarrow> (acts, Raised err, w1\<lparr>ctl := c1\<rparr>)
                | (Inr u, c1) \<Rightarrow> (acts, Returned, w1\<lparr>ctl := c1\<rparr>))))"

section \<open>States and runs used in the statements\<close>

text \<open>The engine after a successful \<open>initialize()\<close> whose audio clock reads 0.\<close>

definition running_AudioEngine :: audio_engine where
  "running_AudioEngine = AudioEngine_initialize 0 new_AudioEngine"

text \<open>
  A \<open>Controls\<close> object after \<open>initialize()\<close> on a page that has every control element.
\<close>

definition page_Controls :: controls where
  "page_Controls =
     new_Controls
       \<lparr>recordBtn := Some \<lparr>disabled = False, highlighted = False, caption = ''Record''\<rparr>,
        playBtn := Some \<lparr>disabled = True, highlighted = False, caption = ''Play''\<rparr>,
        clearBtn := Some \<lparr>disabled = True, highlighted = False, caption = ''Clear''\<rparr>,
        recordingStatus := Some Status_empty,
        listening := True\<rparr>"

text \<open>A recording in progress that holds one note.\<close>

definition one_note_recording :: controls where
  "one_note_recording =
     snd (recordNote \<lparr>detail_noteIndex = Fin 0, detail_timestamp = 1000\<rparr>
            (snd (startRecording 1000 page_Controls)))"

text \<open>That recording stopped and then played.\<close>

definition playing_Controls :: controls where
  "playing_Controls =
     snd (playRecording_begin (snd (stopRecording one_note_recording)))"

text \<open>A recorder limited to two notes, and two \<open>notePlayed\<close> events.\<close>

definition two_note_limit :: controls where
  "two_note_limit = setMaxRecordingLength 2 page_Controls"

definition two_details :: "note_detail list" where
  "two_details =
     [\<lparr>detail_noteIndex = Fin 0, detail_timestamp = 1000\<rparr>,
      \<lparr>detail_noteIndex = Fin 4, detail_timestamp = 1050\<rparr>]"

text \<open>Calls of \<open>Xylophone.playNote\<close> one after the other, no timer firing in between.\<close>

fun play_all :: "jsnum list \<Rightarrow> audio_engine \<times> xylophone \<Rightarrow> audio_engine \<times> xylophone" where
  "play_all [] ex = ex"
| "play_all (n # ns) ex = play_all ns (snd (Xylophone_playNote n ex))"

text \<open>
  \<open>notePlayed\<close> events handed to \<open>recordNote\<close> one after the other, and the record
  \<open>recordNote\<close> stores for an event when recording started at \<open>start\<close>.
\<close>

fun record_all :: "note_detail list \<Rightarrow> controls \<Rightarrow> controls" where
  "record_all [] c = c"
| "record_all (d # ds) c = record_all ds (snd (recordNote d c))"

definition recorded_entry :: "real \<Rightarrow> note_detail \<Rightarrow> jsval" where
  "recorded_entry start d =
     JObj [(''noteIndex'', JNum (detail_noteIndex d)),
           (''delay'', JNum (Fin (detail_timestamp d - start)))]"

subsection \<open>A reader for JSON texts\<close>

text \<open>
  \<open>JSON.parse\<close> on the texts met below: JSON without escapes in strings and without
  exponents in numbers. None stands for SyntaxError.
\<close>

definition is_ws :: "char \<Rightarrow> bool" where
  "is_ws c = (c = CHR '' '' \<or> c = CHR 0x0A \<or> c = CHR 0x0D \<or> c = CHR 0x09)"

fun skip_ws :: "string \<Rightarrow> string" where
  "skip_ws [] = []"
| "skip_ws (c # cs) = (if is_ws c then skip_ws cs else c # cs)"

definition digit_of :: "char \<Rightarrow> nat option" where
  "digit_of c =
     (let n = (of_char c :: nat) in if 48 \<le> n \<and> n \<le> 57 then Some (n - 48) else None)"

text \<open>The digits at the front of a text: how many there are, their decimal value, the rest.\<close>

fun read_digits :: "nat \<Rightarrow> nat \<Rightarrow> string \<Rightarrow> nat \<times> nat \<times> string" where
  "read_digits k acc [] = (k, acc, [])"
| "read_digits k acc (c # cs) =
     (case digit_of c of
        None \<Rightarrow> (k, acc, c # cs)
      | Some d \<Rightarrow> read_digits (Suc k) (10 * acc + d) cs)"

text \<open>An unsigned JSON number without exponent: digits, then optionally a point and digits.\<close>

definition read_unsigned :: "string \<Rightarrow> (real \<times> string) option" where
  "read_unsigned s =
     (case read_digits 0 0 s of
        (k, whole, rest) \<Rightarrow>
          if k = 0 then None
          else
            (case rest of
               c # cs \<Rightarrow>
                 if c = CHR ''.''
                 then (case read_digits 0 0 cs of
                         (j, part, rest') \<Rightarrow>
                           if j = 0 then None
                           else Some (real whole + real part / 10 ^ j, rest'))
                 else Some (real whole, rest)
             | [] \<Rightarrow> Some (real whole, rest)))"

text \<open>The characters of a string literal up to its closing quote; escapes are not read.\<close>

fun read_string :: "string \<Rightarrow> (string \<times> string) option" where
  "read_string [] = None"
| "read_string (c # cs) =
     (if c = CHR 0x22 then Some ([], cs)
      else if c = CHR 0x5C then None
      else (case read_string cs of None \<Rightarrow> None | Some (str, rest) \<Rightarrow> Some (c # str, rest)))"

text \<open>
  Writing a property of an object: a repeated key of a JSON text overwrites the value
  and keeps the place of the first occurrence.
\<close>

fun set_prop :: "string \<Rightarrow> jsval \<Rightarrow> (string \<times> jsval) list \<Rightarrow> (string \<times> jsval) list" where
  "set_prop k v [] = [(k, v)]"
| "set_prop k v (p # ps) = (if fst p = k then (k, v) # ps else p # set_prop k v ps)"

text \<open>
  Values, array elements and object members, by recursive descent; the first argument
  bounds the depth of the recursion.
\<close>

fun read_value :: "nat \<Rightarrow> string \<Rightarrow> (jsval \<times> string) option"
  and read_elements :: "nat \<Rightarrow> string \<Rightarrow> (jsval list \<times> string) option"
  and read_members :: "nat \<Rightarrow> string \<Rightarrow> ((string \<times> jsval) list \<times> string) option" where
  "read_value 0 s = None"
| "read_value (Suc n) s =
     (case skip_ws s of
        [] \<Rightarrow> None
      | c # cs \<Rightarrow>
          if c = CHR ''[''
          then (case skip_ws cs of
                  [] \<Rightarrow> None
                | c' # cs' \<Rightarrow>
                    if c' = CHR '']'' then Some (JArr [], cs')
                    else (case read_elements n cs of
                            None \<Rightarrow> None
                          | Some (vs, rest) \<Rightarrow> Some (JArr vs, rest)))
          else if c = CHR ''{''
          then (case skip_ws cs of
                  [] \<Rightarrow> None
                | c' # cs' \<Rightarrow>
                    if c' = CHR ''}'' then Some (JObj [], cs')
                    else (case read_members n cs of
                            None \<Rightarrow> None
                          | Some (kvs, rest) \<Rightarrow>
                              Some (JObj (fold (\<lambda>(k, v). set_prop k v) kvs []), rest)))
          else if c = CHR 0x22
          then (case read_string cs of
                  None \<Rightarrow> None
                | Some (str, rest) \<Rightarrow> Some (JStr str, rest))
          else if c = CHR ''-''
          then (case read_unsigned cs of
                  None \<Rightarrow> None
                | Some (x, rest) \<Rightarrow> Some (JNum (Fin (- x)), rest))
          else if take 4 (c # cs) = ''null'' then Some (JNull, drop 3 cs)
          else if take 4 (c # cs) = ''true'' then Some (JBool True, drop 3 cs)
          else if take 5 (c # cs) = ''false'' then Some (JBool False, drop 4 cs)
          else (case read_unsigned (c # cs) of
                  None \<Rightarrow> None
                | Some (x, rest) \<Rightarrow> Some (JNum (Fin x), rest)))"
| "read_elements 0 s = None"
| "read_elements (Suc n) s =
     (case read_value n s of
        None \<Rightarrow> None
      | Some (v, rest) \<Rightarrow>
          (case skip_ws rest of
             [] \<Rightarrow> None
           | c # cs \<Rightarrow>
               if c = CHR '','' then
                 (case read_elements n cs of
                    None \<Rightarrow> None
                  | Some (vs, rest') \<Rightarrow> Some (v # vs, rest'))
               else if c = CHR '']'' then Some ([v], cs)
               else None))"
| "read_members 0 s = None"
| "read_members (Suc n) s =
     (case skip_ws s of
        [] \<Rightarrow> None
      | q # cs \<Rightarrow>
          if q \<noteq> CHR 0x22 then None
          else
            (case read_string cs of
               None \<Rightarrow> None
             | Some (key, rest) \<Rightarrow>
                 (case skip_ws rest of
                    [] \<Rightarrow> None
                  | colon # cs' \<Rightarrow>
                      if colon \<noteq> CHR '':'' then None
                      else
                        (case read_value n cs' of
                           None \<Rightarrow> None
                         | Some (v, rest') \<Rightarrow>
                             (case skip_ws rest' of
                                [] \<Rightarrow> None
                              | c # cs'' \<Rightarrow>
                                  if c = CHR '','' then
                                    (case read_members n cs'' of
                                       None \<Rightarrow> None
                                     | Some (kvs, rest'') \<Rightarrow>
                                         Some ((key, v) # kvs, rest''))
                                  else if c = CHR ''}'' then Some ([(key, v)], cs'')
                                  else None)))))"

text \<open>The whole text must be one value.\<close>

definition parse_json :: "string \<Rightarrow> jsval option" where
  "parse_json s =
     (case read_value (Suc (length s)) s of
        None \<Rightarrow> None
      | Some (v, rest) \<Rightarrow> if skip_ws rest = [] then Some v else None)"

text \<open>A text between double quotes, and a line break.\<close>

definition quoted :: "string \<Rightarrow> string" where
  "quoted s = CHR 0x22 # s @ [CHR 0x22]"

definition newline :: string where
  "newline = [CHR 0x0A]"

text \<open>The JSON text \<open>[{"noteIndex":1,"delay":0}]\<close>.\<close>

definition one_note_text :: string where
  "one_note_text = ''[{'' @ quoted ''noteIndex'' @ '':1,'' @ quoted ''delay'' @ '':0}]''"



definition three_notes_text :: string where
  "three_notes_text =
     ''['' @ newline @
     ''  {'' @ newline @
     ''    '' @ quoted ''noteIndex'' @ '': 0,'' @ newline @
     ''    '' @ quoted ''delay'' @ '': 0'' @ newline @
     ''  },'' @ newline @
     ''  {'' @ newline @
     ''    '' @ quoted ''noteIndex'' @ '': 2,'' @ newline @
     ''    '' @ quoted ''delay'' @ '': 50'' @ newline @
     ''  },'' @ newline @
     ''  {'' @ newline @
     ''    '' @ quoted ''noteIndex'' @ '': 4,'' @ newline @
     ''    '' @ quoted ''delay'' @ '': 200'' @ newline @
     ''  }'' @ newline @
     '']''"

subsection \<open>A writer for JSON texts\<close>

text \<open>
  \<open>JSON.stringify(value, null, 2)\<close> on the values met below. None stands for a text that
  is left out here: that of a finite number which is not an integer or not below
  \<open>10^21\<close> in magnitude, and that of a string with a character to escape.
\<close>

definition digit_char :: "nat \<Rightarrow> char" where
  "digit_char d = ''0123456789'' ! d"

function nat_text :: "nat \<Rightarrow> string" where
  "nat_text n = (if n < 10 then [digit_char n] else nat_text (n div 10) @ [digit_char (n mod 10)])"
  by pat_completeness auto
termination
  by (relation "measure id") auto

declare nat_text.simps [simp del]

definition int_text :: "int \<Rightarrow> string" where
  "int_text i = (if i < 0 then CHR ''-'' # nat_text (nat (- i)) else nat_text (nat i))"

text \<open>A number: \<open>null\<close> for NaN and the infinities, the decimal digits of an integer.\<close>

fun number_text :: "jsnum \<Rightarrow> string option" where
  "number_text (Fin x) =
     (if of_int \<lfloor>x\<rfloor> = x \<and> \<bar>x\<bar> < 10 ^ 21 then Some (int_text \<lfloor>x\<rfloor>) else None)"
| "number_text NaN = Some ''null''"
| "number_text PosInf = Some ''null''"
| "number_text NegInf = Some ''null''"

text \<open>A string without a double quote, a backslash or a control character.\<close>

definition string_text :: "string \<Rightarrow> string option" where
  "string_text s =
     (if \<forall>c \<in> set s. c \<noteq> CHR 0x22 \<and> c \<noteq> CHR 0x5C \<and> 32 \<le> (of_char c :: nat)
      then Some (quoted s) else None)"

definition indent_text :: "nat \<Rightarrow> string" where
  "indent_text n = replicate n (CHR '' '')"

text \<open>
  Values, array elements and object members at an indentation: each element or member on
  a line of its own, two columns further in than the bracket that closes the list.
\<close>

fun stringify :: "nat \<Rightarrow> jsval \<Rightarrow> string option"
  and stringify_elements :: "nat \<Rightarrow> jsval list \<Rightarrow> string option"
  and stringify_members :: "nat \<Rightarrow> (string \<times> jsval) list \<Rightarrow> string option" where
  "stringify ind JNull = Some ''null''"
| "stringify ind (JBool b) = Some (if b then ''true'' else ''false'')"
| "stringify ind (JNum n) = number_text n"
| "stringify ind (JStr s) = string_text s"
| "stringify ind (JArr vs) =
     (if vs = [] then Some ''[]''
      else (case stringify_elements (ind + 2) vs of
              None \<Rightarrow> None
            | Some body \<Rightarrow> Some (''['' @ newline @ body @ newline @ indent_text ind @ '']'')))"
| "stringify ind (JObj kvs) =
     (if kvs = [] then Some ''{}''
      else (case stringify_members (ind + 2) kvs of
              None \<Rightarrow> None
            | Some body \<Rightarrow> Some (''{'' @ newline @ body @ newline @ indent_text ind @ ''}'')))"
| "stringify_elements ind [] = Some []"
| "stringify_elements ind (v # vs) =
     (case stringify ind v of
        None \<Rightarrow> None
      | Some t \<Rightarrow>
          if vs = [] then Some (indent_text ind @ t)
          else (case stringify_elements ind vs of
                  None \<Rightarrow> None
                | Some ts \<Rightarrow> Some (indent_text ind @ t @ '','' @ newline @ ts)))"
| "stringify_members ind [] = Some []"
| "stringify_members ind (kv # kvs) =
     (case string_text (fst kv) of
        None \<Rightarrow> None
      | Some k \<Rightarrow>
          (case stringify ind (snd kv) of
             None \<Rightarrow> None
           | Some t \<Rightarrow>
               if kvs = [] then Some (indent_text ind @ k @ '': '' @ t)
               else (case stringify_members ind kvs of
                       None \<Rightarrow> None
                     | Some ts \<Rightarrow> Some (indent_text ind @ k @ '': '' @ t @ '','' @ newline @ ts))))"


text \<open>
  A stored note is an integer note when it is \<open>{noteIndex, delay}\<close>, in this order and
  nothing else, with integer numbers below \<open>10^21\<close> in magnitude: what \<open>recordNote\<close>
  stores for a whole-numbered index and whole-numbered clock readings.
\<close>

definition is_integer_number :: "jsval option \<Rightarrow> bool" where
  "is_integer_number v =
     (case v of
        Some (JNum (Fin x)) \<Rightarrow> of_int \<lfloor>x\<rfloor> = x \<and> \<bar>x\<bar> < 10 ^ 21
      | other \<Rightarrow> False)"

definition integer_note :: "jsval \<Rightarrow> bool" where
  "integer_note note =
     (case note of
        JObj kvs \<Rightarrow>
          map fst kvs = [''noteIndex'', ''delay'']
          \<and> is_integer_number (map_of kvs ''noteIndex'')
          \<and> is_integer_number (map_of kvs ''delay'')
      | other \<Rightarrow> False)"





text \<open>
  A stored note has number fields when it is an object whose \<open>noteIndex\<close> and \<open>delay\<close>
  are numbers, of any sign.
\<close>

fun has_number_fields :: "jsval \<Rightarrow> bool" where
  "has_number_fields (JObj kvs) =
     (typeof_number (map_of kvs ''noteIndex'') \<and> typeof_number (map_of kvs ''delay''))"
| "has_number_fields other = False"






section \<open>Properties\<close>

subsection \<open>Audio engine\<close>

lemma running_AudioEngine_eq:
  "running_AudioEngine =
     \<lparr>audioContext = Some \<lparr>currentTime = 0\<rparr>,
      masterGain = Some \<lparr>param_value = 0.7, param_events = []\<rparr>,
      isInitialized = True, activeOscillators = [],
      envelope = \<lparr>attack = 0.005, decay = 0.1, sustain = 0.3, release = 1.2\<rparr>,
      oscillatorType = ''sine'', defaultVolume = 0.7\<rparr>"
  by (simp add: running_AudioEngine_def AudioEngine_initialize_def new_AudioEngine_def)

lemma schedule_envelope_ok:
  assumes "0 \<le> now" and "0 \<le> now + attack env" and "0 \<le> now + attack env + decay env"
    and "0 \<le> now + duration" and "0 \<le> now + duration + release env"
  shows "schedule_envelope env now duration =
           Inr \<lparr>param_value = 0,
                param_events =
                  [SetValueAtTime 0 now,
                   LinearRampToValueAtTime 1 (now + attack env),
                   LinearRampToValueAtTime (sustain env) (now + attack env + decay env),
                   SetValueAtTime (sustain env) (now + duration),
                   LinearRampToValueAtTime 0 (now + duration + release env)]\<rparr>"
  using assms
  by (simp add: schedule_envelope_def setValueAtTime_def linearRampToValueAtTime_def Let_def)

text \<open>
  Claim C7. On an initialized engine whose clock reads \<open>now\<close>, whenever the five times
  below are not negative (as they are for a clock, envelope times and a duration \<open>d\<close> that
  are not negative), \<open>playNote(f, d)\<close> succeeds and tracks one new voice whose gain is
  scheduled with exactly: value 0 at \<open>now\<close>, a linear ramp to 1 at \<open>now + attack\<close>, a linear
  ramp to \<open>sustain\<close> at \<open>now + attack + decay\<close>, value \<open>sustain\<close> at \<open>now + d\<close>, a linear ramp
  to 0 at \<open>now + d + release\<close>; the oscillator starts at \<open>now\<close> and stops at
  \<open>now + d + release\<close>. With the default envelope and \<open>d = 2\<close> the voice lasts 3.2 seconds.
\<close>

theorem C7_playNote_envelope:
  assumes "isInitialized e" and "audioContext e = Some ctx" and "masterGain e = Some mg"
    and "0 \<le> currentTime ctx"
    and "0 \<le> currentTime ctx + attack (envelope e)"
    and "0 \<le> currentTime ctx + attack (envelope e) + decay (envelope e)"
    and "0 \<le> currentTime ctx + d"
    and "0 \<le> currentTime ctx + d + release (envelope e)"
  shows "AudioEngine_playNote f d e =
           (True, e\<lparr>activeOscillators := activeOscillators e @
              [\<lparr>osc_type = oscillatorType e, osc_frequency = f,
                osc_gain = \<lparr>param_value = 0,
                  param_events =
                    [SetValueAtTime 0 (currentTime ctx),
                     LinearRampToValueAtTime 1 (currentTime ctx + attack (envelope e)),
                     LinearRampToValueAtTime (sustain (envelope e))
                       (currentTime ctx + attack (envelope e) + decay (envelope e)),
                     SetValueAtTime (sustain (envelope e)) (currentTime ctx + d),
                     LinearRampToValueAtTime 0 (currentTime ctx + d + release (envelope e))]\<rparr>,
                osc_start = currentTime ctx,
                osc_stop = currentTime ctx + d + release (envelope e)\<rparr>]\<rparr>)
         \<and> (envelope e = envelope new_AudioEngine \<and> d = 2 \<longrightarrow>
              (currentTime ctx + d + release (envelope e)) - currentTime ctx = 3.2)"
proof -
  have "schedule_envelope (envelope e) (currentTime ctx) d =
           Inr \<lparr>param_value = 0,
                param_events =
                  [SetValueAtTime 0 (currentTime ctx),
                   LinearRampToValueAtTime 1 (currentTime ctx + attack (envelope e)),
                   LinearRampToValueAtTime (sustain (envelope e))
                     (currentTime ctx + attack (envelope e) + decay (envelope e)),
                   SetValueAtTime (sustain (envelope e)) (currentTime ctx + d),
                   LinearRampToValueAtTime 0 (currentTime ctx + d + release (envelope e))]\<rparr>"
    using assms(4-8) by (rule schedule_envelope_ok)
  then have "AudioEngine_playNote f d e =
           (True, e\<lparr>activeOscillators := activeOscillators e @
              [\<lparr>osc_type = oscillatorType e, osc_frequency = f,
                osc_gain = \<lparr>param_value = 0,
                  param_events =
                    [SetValueAtTime 0 (currentTime ctx),
                     LinearRampToValueAtTime 1 (currentTime ctx + attack (envelope e)),
                     LinearRampToValueAtTime (sustain (envelope e))
                       (currentTime ctx + attack (envelope e) + decay (envelope e)),
                     SetValueAtTime (sustain (envelope e)) (currentTime ctx + d),
                     LinearRampToValueAtTime 0 (currentTime ctx + d + release (envelope e))]\<rparr>,
                osc_start = currentTime ctx,
                osc_stop = currentTime ctx + d + release (envelope e)\<rparr>]\<rparr>)"
    using assms(1-4,8) by (simp add: AudioEngine_playNote_def Let_def)
  moreover have "envelope e = envelope new_AudioEngine \<and> d = 2 \<longrightarrow>
              (currentTime ctx + d + release (envelope e)) - currentTime ctx = 3.2"
    by (simp add: new_AudioEngine_def)
  ultimately show ?thesis by blast
qed

theorem C7_witness:
  "isInitialized running_AudioEngine
   \<and> audioContext running_AudioEngine = Some \<lparr>currentTime = 0\<rparr>
   \<and> masterGain running_AudioEngine = Some \<lparr>param_value = 0.7, param_events = []\<rparr>
   \<and> AudioEngine_playNote 261.63 2 running_AudioEngine =
     (True, running_AudioEngine\<lparr>activeOscillators :=
        [\<lparr>osc_type = ''sine'', osc_frequency = 261.63,
          osc_gain = \<lparr>param_value = 0,
            param_events =
              [SetValueAtTime 0 0, LinearRampToValueAtTime 1 0.005,
               LinearRampToValueAtTime 0.3 0.105, SetValueAtTime 0.3 2,
               LinearRampToValueAtTime 0 3.2]\<rparr>,
          osc_start = 0, osc_stop = 3.2\<rparr>]\<rparr>)"
  using C7_playNote_envelope [of running_AudioEngine "\<lparr>currentTime = 0\<rparr>"
      "\<lparr>param_value = 0.7, param_events = []\<rparr>" 2 "261.63"]
  by (simp add: running_AudioEngine_eq)

text \<open>
  Claim C8 as stated fails: \<open>getVolume()\<close> reads the current value of the master gain,
  and \<open>setVolume\<close> only schedules an approach to the clamped level. Right after
  \<open>setVolume(1.5)\<close> on a freshly initialized engine \<open>getVolume()\<close> still answers 0.7.
\<close>

theorem C8_counterexample:
  "AudioEngine_getVolume (snd (AudioEngine_setVolume (Fin 1.5) running_AudioEngine)) = 0.7
   \<and> AudioEngine_getVolume (snd (AudioEngine_setVolume (Fin 1.5) running_AudioEngine)) \<noteq> 1.0"
  by (simp add: running_AudioEngine_eq AudioEngine_getVolume_def AudioEngine_setVolume_def)

text \<open>
  The level \<open>setVolume\<close> aims at for a number that is not NaN: the number clamped into
  \<open>[0, 1]\<close>, with 1 for \<open>Infinity\<close> and 0 for \<open>-Infinity\<close>.
\<close>

lemma clamp_not_NaN:
  "volume \<noteq> NaN \<Longrightarrow>
   \<exists>level. Math_max 0 (Math_min 1 volume) = Fin level \<and> 0 \<le> level \<and> level \<le> 1"
  by (cases volume) simp_all

text \<open>
  For NaN nothing is clamped: \<open>Math.max(0, Math.min(1, NaN))\<close> is NaN, \<open>setTargetAtTime\<close>
  raises TypeError, which leaves \<open>setVolume\<close>, and the engine stays as it was.
\<close>

lemma setVolume_NaN:
  assumes "isInitialized e" and "audioContext e = Some ctx" and "masterGain e = Some mg"
  shows "AudioEngine_setVolume NaN e = (Inl TypeError, e)"
  using assms by (simp add: AudioEngine_setVolume_def)

text \<open>
  Claim C8, amended. On an initialized engine, for every number \<open>volume\<close> other than NaN
  (the infinities included), \<open>setVolume(volume)\<close> rejects nothing: the clamped level lies
  in \<open>[0, 1]\<close> (it is \<open>max 0 (min 1 x)\<close> for a finite \<open>x\<close>, so 1 for 1.5), and the call
  schedules \<open>setTargetAtTime\<close> on the master gain towards that level, at the current
  audio time with time constant 0.01. \<open>getVolume()\<close> answers the current value of the
  master gain, which the call of \<open>setVolume\<close> leaves as it was.
\<close>

theorem C8_setVolume_schedules_clamped_target:
  assumes "isInitialized e" and "audioContext e = Some ctx" and "masterGain e = Some mg"
    and "0 \<le> currentTime ctx" and "volume \<noteq> NaN"
  shows "\<exists>level. Math_max 0 (Math_min 1 volume) = Fin level \<and> 0 \<le> level \<and> level \<le> 1
           \<and> (\<forall>x. volume = Fin x \<longrightarrow> level = max 0 (min 1 x))
           \<and> AudioEngine_setVolume volume e =
               (Inr (), e\<lparr>masterGain := Some (mg\<lparr>param_events := param_events mg @
                  [SetTargetAtTime level (currentTime ctx) 0.01]\<rparr>)\<rparr>)
           \<and> AudioEngine_getVolume (snd (AudioEngine_setVolume volume e)) = AudioEngine_getVolume e
           \<and> AudioEngine_getVolume e = param_value mg"
proof -
  from assms(5) obtain level where level: "Math_max 0 (Math_min 1 volume) = Fin level"
    and range: "0 \<le> level" "level \<le> 1"
    using clamp_not_NaN by blast
  have finite: "\<forall>x. volume = Fin x \<longrightarrow> level = max 0 (min 1 x)"
    using level by auto
  have "AudioEngine_setVolume volume e =
      (Inr (), e\<lparr>masterGain := Some (mg\<lparr>param_events := param_events mg @
         [SetTargetAtTime level (currentTime ctx) 0.01]\<rparr>)\<rparr>)"
    using assms(1-4) level by (simp add: AudioEngine_setVolume_def)
  moreover from this
  have "AudioEngine_getVolume (snd (AudioEngine_setVolume volume e)) = AudioEngine_getVolume e"
    using assms(1,3) by (simp add: AudioEngine_getVolume_def)
  moreover have "AudioEngine_getVolume e = param_value mg"
    using assms(1,3) by (simp add: AudioEngine_getVolume_def)
  ultimately show ?thesis
    using level range finite by blast
qed

theorem C8_witness:
  "isInitialized running_AudioEngine
   \<and> audioContext running_AudioEngine = Some \<lparr>currentTime = 0\<rparr>
   \<and> masterGain running_AudioEngine = Some \<lparr>param_value = 0.7, param_events = []\<rparr>
   \<and> Fin 1.5 \<noteq> NaN
   \<and> AudioEngine_setVolume (Fin 1.5) running_AudioEngine =
     (Inr (), running_AudioEngine\<lparr>masterGain :=
        Some \<lparr>param_value = 0.7, param_events = [SetTargetAtTime 1 0 0.01]\<rparr>\<rparr>)
   \<and> AudioEngine_getVolume (snd (AudioEngine_setVolume (Fin 1.5) running_AudioEngine)) = 0.7"
  using C8_setVolume_schedules_clamped_target [of running_AudioEngine "\<lparr>currentTime = 0\<rparr>"
      "\<lparr>param_value = 0.7, param_events = []\<rparr>" "Fin 1.5"]
  by (simp add: running_AudioEngine_eq AudioEngine_getVolume_def)

subsection \<open>Xylophone\<close>

lemma length_notes_new [simp]: "length (notes_list new_Xylophone) = 11"
  by (simp add: new_Xylophone_def)

lemma isValidNoteIndex_iff:
  "isValidNoteIndex i new_Xylophone \<longleftrightarrow> (\<exists>k::int. i = Fin (of_int k) \<and> 0 \<le> k \<and> k \<le> 10)"
proof (cases i)
  case (Fin x)
  show ?thesis
  proof
    assume v: "isValidNoteIndex i new_Xylophone"
    then obtain k :: int where k: "x = of_int k" and "0 \<le> x" "x < 11"
      using Fin by (auto simp: isValidNoteIndex_def)
    then have "i = Fin (of_int k) \<and> 0 \<le> k \<and> k \<le> 10"
      using Fin by simp
    then show "\<exists>k::int. i = Fin (of_int k) \<and> 0 \<le> k \<and> k \<le> 10" by blast
  next
    assume "\<exists>k::int. i = Fin (of_int k) \<and> 0 \<le> k \<and> k \<le> 10"
    then show "isValidNoteIndex i new_Xylophone"
      by (auto simp: isValidNoteIndex_def)
  qed
qed (auto simp: isValidNoteIndex_def)

text \<open>
  Claim C3 at the input 1.5. \<open>isValidNoteIndex(1.5)\<close> is false, as the claim says (and
  \<open>isValidNoteIndex_iff\<close> shows that the valid indices are exactly the integers 0 to 10).
  But \<open>playNote(1.5)\<close> does not return \<open>false\<close>: its own check only compares with the
  range, \<open>this.notes[1.5]\<close> is \<open>undefined\<close>, and reading \<open>note.frequency\<close> raises TypeError.
\<close>

theorem C3_playNote_raises_on_non_integer:
  "\<not> isValidNoteIndex (Fin 1.5) new_Xylophone
   \<and> fst (Xylophone_playNote (Fin 1.5) (running_AudioEngine, new_Xylophone)) = Inl TypeError"
  by (simp add: isValidNoteIndex_def Xylophone_playNote_def new_Xylophone_def Let_def fcard_fempty)

lemma playNote_activeNotes:
  "activeNotes (snd (snd (Xylophone_playNote n ex))) =
     (if fst (Xylophone_playNote n ex) = Inr True then finsert n (activeNotes (snd ex))
      else activeNotes (snd ex))"
  by (auto simp: Xylophone_playNote_def Let_def split: option.splits prod.splits)

lemma play_all_subset:
  "activeNotes (snd (play_all ns ex)) |\<subseteq>| activeNotes (snd ex) |\<union>| fset_of_list ns"
proof (induction ns arbitrary: ex)
  case Nil
  show ?case by simp
next
  case (Cons n ns)
  have "activeNotes (snd (snd (Xylophone_playNote n ex))) |\<subseteq>| finsert n (activeNotes (snd ex))"
    by (auto simp: playNote_activeNotes)
  with Cons [of "snd (Xylophone_playNote n ex)"] show ?case
    by auto
qed

text \<open>
  Claim C9. The active notes are a set of note indices. A successful \<open>playNote\<close> of an index
  that is already active leaves the set, and so its size, unchanged. Any number \<open>N\<close> of
  calls for one index, starting from no active note, leaves at most one active note.
  After any run of calls the count has grown by at most the number of distinct indices
  played, so the polyphony limit is only reached through distinct indices.
\<close>

theorem C9_activeNotes_keyed_by_index:
  "(n |\<in>| activeNotes x \<and> fst (Xylophone_playNote n (e, x)) = Inr True \<longrightarrow>
      activeNotes (snd (snd (Xylophone_playNote n (e, x)))) = activeNotes x
      \<and> fcard (activeNotes (snd (snd (Xylophone_playNote n (e, x))))) = fcard (activeNotes x))
   \<and> fcard (activeNotes (snd (play_all (replicate N n) (e, x\<lparr>activeNotes := {||}\<rparr>)))) \<le> 1
   \<and> fcard (activeNotes (snd (play_all ns (e, x)))) \<le> fcard (activeNotes x) + card (set ns)"
proof (intro conjI impI)
  assume a: "n |\<in>| activeNotes x \<and> fst (Xylophone_playNote n (e, x)) = Inr True"
  then show same: "activeNotes (snd (snd (Xylophone_playNote n (e, x)))) = activeNotes x"
    by (auto simp: playNote_activeNotes)
  then show "fcard (activeNotes (snd (snd (Xylophone_playNote n (e, x))))) = fcard (activeNotes x)"
    by simp
next
  have "activeNotes (snd (play_all (replicate N n) (e, x\<lparr>activeNotes := {||}\<rparr>)))
          |\<subseteq>| fset_of_list (replicate N n)"
    using play_all_subset [of "replicate N n" "(e, x\<lparr>activeNotes := {||}\<rparr>)"] by simp
  also have "\<dots> |\<subseteq>| {|n|}" by (auto simp: fset_of_list_elem)
  finally have "fcard (activeNotes (snd (play_all (replicate N n) (e, x\<lparr>activeNotes := {||}\<rparr>))))
                  \<le> fcard {|n|}"
    by (rule fcard_mono)
  then show "fcard (activeNotes (snd (play_all (replicate N n) (e, x\<lparr>activeNotes := {||}\<rparr>)))) \<le> 1"
    by (simp add: fcard_finsert_if fcard_fempty)
next
  have "fcard (activeNotes (snd (play_all ns (e, x)))) \<le> fcard (activeNotes x |\<union>| fset_of_list ns)"
    using play_all_subset [of ns "(e, x)"] by (simp add: fcard_mono)
  also have "\<dots> \<le> fcard (activeNotes x) + fcard (fset_of_list ns)"
    by (simp add: fcard.rep_eq card_Un_le)
  also have "fcard (fset_of_list ns) = card (set ns)"
    by (simp add: fcard.rep_eq fset_of_list.rep_eq)
  finally show "fcard (activeNotes (snd (play_all ns (e, x)))) \<le> fcard (activeNotes x) + card (set ns)"
    by simp
qed

theorem C9_witness:
  "Fin 3 |\<in>| activeNotes (new_Xylophone\<lparr>activeNotes := {|Fin 3|}\<rparr>)
   \<and> fst (Xylophone_playNote (Fin 3)
          (running_AudioEngine, new_Xylophone\<lparr>activeNotes := {|Fin 3|}\<rparr>)) = Inr True
   \<and> fcard (activeNotes (snd (snd (Xylophone_playNote (Fin 3)
        (running_AudioEngine, new_Xylophone\<lparr>activeNotes := {|Fin 3|}\<rparr>))))) = 1
   \<and> fcard (activeNotes (snd (play_all [Fin 3, Fin 3] (running_AudioEngine, new_Xylophone)))) = 1
   \<and> length (activeOscillators
         (fst (play_all [Fin 3, Fin 3] (running_AudioEngine, new_Xylophone)))) = 2"
proof -
  have 1: "Fin 3 |\<in>| activeNotes (new_Xylophone\<lparr>activeNotes := {|Fin 3|}\<rparr>)" by simp
  have 2: "fst (Xylophone_playNote (Fin 3)
      (running_AudioEngine, new_Xylophone\<lparr>activeNotes := {|Fin 3|}\<rparr>)) = Inr True"
    by (simp add: Xylophone_playNote_def new_Xylophone_def running_AudioEngine_eq
        AudioEngine_playNote_def schedule_envelope_def setValueAtTime_def
        linearRampToValueAtTime_def Let_def fcard_finsert_if fcard_fempty)
  have 3: "fcard (activeNotes (snd (play_all [Fin 3, Fin 3]
        (running_AudioEngine, new_Xylophone)))) = 1
      \<and> length (activeOscillators
            (fst (play_all [Fin 3, Fin 3] (running_AudioEngine, new_Xylophone)))) = 2"
    by (simp add: Xylophone_playNote_def new_Xylophone_def running_AudioEngine_eq
        AudioEngine_playNote_def schedule_envelope_def setValueAtTime_def
        linearRampToValueAtTime_def Let_def fcard_finsert_if fcard_fempty)
  show ?thesis
    using 1 2 3 C9_activeNotes_keyed_by_index [of "Fin 3"
        "new_Xylophone\<lparr>activeNotes := {|Fin 3|}\<rparr>" running_AudioEngine 0 "[]"]
    by (simp add: fcard_finsert_if fcard_fempty)
qed

subsection \<open>Recorder\<close>

lemmas ui_defs = and_then_def on_recordBtn_def on_playBtn_def on_clearBtn_def
  updateRecordingStatus_def

lemma one_note_recording_eq:
  "one_note_recording =
     \<lparr>recordBtn = Some \<lparr>disabled = False, highlighted = True, caption = ''Stop''\<rparr>,
      playBtn = Some \<lparr>disabled = True, highlighted = False, caption = ''Play''\<rparr>,
      clearBtn = Some \<lparr>disabled = True, highlighted = False, caption = ''Clear''\<rparr>,
      recordingStatus = Some (Status_Recording_count 1),
      isRecording = True, isPlaying = False,
      recordedSequence = [JObj [(''noteIndex'', JNum (Fin 0)), (''delay'', JNum (Fin 0))]],
      recordingStartTime = 1000, maxRecordingLength = 100, playbackTimeout = None,
      listening = True\<rparr>"
  by (simp add: one_note_recording_def recordNote_def startRecording_def page_Controls_def
      new_Controls_def ui_defs Let_def)

text \<open>
  Claim C1 at a recording in progress that holds one note. \<open>playRecording()\<close> tests for an
  empty sequence and for a playback already running, not for a recording in progress
  (\<open>startRecording()\<close> does test \<open>isPlaying\<close>): it passes both guards and sets
  \<open>isPlaying\<close>, while \<open>isRecording\<close> stays set.
\<close>

theorem C1_play_while_recording_starts_playback:
  "isRecording one_note_recording \<and> recordedSequence one_note_recording \<noteq> []
   \<and> \<not> isPlaying one_note_recording
   \<and> fst (playRecording_begin one_note_recording) = Inr True
   \<and> isPlaying (snd (playRecording_begin one_note_recording))
   \<and> isRecording (snd (playRecording_begin one_note_recording))"
  by (simp add: one_note_recording_eq playRecording_begin_def ui_defs)

lemma stopRecording_fields:
  "recordedSequence (snd (stopRecording c)) = recordedSequence c"
  "isRecording (snd (stopRecording c)) = False"
  "maxRecordingLength (snd (stopRecording c)) = maxRecordingLength c"
  "recordingStartTime (snd (stopRecording c)) = recordingStartTime c"
  "isPlaying (snd (stopRecording c)) = isPlaying c"
  by (auto simp: stopRecording_def ui_defs split: option.splits)

lemma startRecording_fields:
  assumes "\<not> isPlaying c"
  shows "recordedSequence (snd (startRecording now c)) = []"
    and "isRecording (snd (startRecording now c))"
    and "maxRecordingLength (snd (startRecording now c)) = maxRecordingLength c"
    and "recordingStartTime (snd (startRecording now c)) = now"
  using assms by (auto simp: startRecording_def ui_defs split: option.splits)

lemma recordNote_room:
  assumes "isRecording c" and "real (length (recordedSequence c)) < maxRecordingLength c"
  shows "recordedSequence (snd (recordNote d c)) =
           recordedSequence c @ [recorded_entry (recordingStartTime c) d]"
    and "isRecording (snd (recordNote d c))"
    and "maxRecordingLength (snd (recordNote d c)) = maxRecordingLength c"
    and "recordingStartTime (snd (recordNote d c)) = recordingStartTime c"
  using assms
  by (simp_all add: recordNote_def recorded_entry_def Let_def updateRecordingStatus_def
      split: option.splits)

lemma recordNote_full:
  assumes "isRecording c" and "real (length (recordedSequence c)) \<ge> maxRecordingLength c"
  shows "recordedSequence (snd (recordNote d c)) = recordedSequence c"
    and "\<not> isRecording (snd (recordNote d c))"
  using assms by (simp_all add: recordNote_def stopRecording_fields)

lemma recordNote_idle: "\<not> isRecording c \<Longrightarrow> recordNote d c = (Inr (), c)"
  by (simp add: recordNote_def)

lemma record_all_room:
  assumes "isRecording c"
    and "real (length (recordedSequence c) + length ds) \<le> maxRecordingLength c"
  shows "recordedSequence (record_all ds c) =
           recordedSequence c @ map (recorded_entry (recordingStartTime c)) ds
         \<and> isRecording (record_all ds c)
         \<and> maxRecordingLength (record_all ds c) = maxRecordingLength c"
  using assms
proof (induction ds arbitrary: c)
  case Nil
  then show ?case by simp
next
  case (Cons d ds)
  have room: "real (length (recordedSequence c)) < maxRecordingLength c"
    using Cons.prems(2) by simp
  note step = recordNote_room [OF Cons.prems(1) room, of d]
  have "real (length (recordedSequence (snd (recordNote d c))) + length ds)
          \<le> maxRecordingLength (snd (recordNote d c))"
    using Cons.prems(2) step(1,3) by simp
  from Cons.IH [OF step(2) this] show ?case
    using step by simp
qed

text \<open>
  Claim C2 as stated fails: after exactly \<open>maxRecordingLength\<close> events (here 2) the
  recorder is still recording.
\<close>

theorem C2_counterexample:
  "maxRecordingLength two_note_limit = 2
   \<and> length (recordedSequence (record_all two_details (snd (startRecording 1000 two_note_limit)))) = 2
   \<and> isRecording (record_all two_details (snd (startRecording 1000 two_note_limit)))"
  by (simp add: two_note_limit_def two_details_def setMaxRecordingLength_def page_Controls_def
      new_Controls_def startRecording_def recordNote_def ui_defs Let_def)

text \<open>
  Claim C2, amended. After \<open>startRecording()\<close>, recording exactly \<open>maxRecordingLength\<close>
  events keeps every one of them, the last included, and leaves the recorder recording.
  The next \<open>recordNote\<close> call adds nothing to the sequence and stops the recording
  (\<open>isRecording\<close> becomes false); a further \<open>recordNote\<close> call changes nothing at all.
\<close>

theorem C2_recording_stops_on_the_event_after_the_maximum:
  assumes "\<not> isPlaying c0" and "maxRecordingLength c0 = real (length ds)"
  shows "recordedSequence (record_all ds (snd (startRecording now c0))) =
           map (recorded_entry now) ds
         \<and> isRecording (record_all ds (snd (startRecording now c0)))
         \<and> recordedSequence (snd (recordNote d (record_all ds (snd (startRecording now c0))))) =
             map (recorded_entry now) ds
         \<and> \<not> isRecording (snd (recordNote d (record_all ds (snd (startRecording now c0)))))
         \<and> recordNote d' (snd (recordNote d (record_all ds (snd (startRecording now c0))))) =
             (Inr (), snd (recordNote d (record_all ds (snd (startRecording now c0)))))"
proof -
  define c where "c = snd (startRecording now c0)"
  note start = startRecording_fields [OF assms(1), of now, folded c_def]
  have "real (length (recordedSequence c) + length ds) \<le> maxRecordingLength c"
    using start assms(2) by simp
  from record_all_room [OF start(2) this]
  have all: "recordedSequence (record_all ds c) = map (recorded_entry now) ds"
    "isRecording (record_all ds c)" "maxRecordingLength (record_all ds c) = real (length ds)"
    using start assms(2) by simp_all
  then have full: "real (length (recordedSequence (record_all ds c)))
      \<ge> maxRecordingLength (record_all ds c)"
    by simp
  note after = recordNote_full [OF all(2) full, of d]
  show ?thesis
    using all after recordNote_idle [OF after(2), of d']
    by (simp add: c_def)
qed

theorem C2_witness:
  "\<not> isPlaying two_note_limit \<and> maxRecordingLength two_note_limit = real (length two_details)
   \<and> recordedSequence (record_all two_details (snd (startRecording 1000 two_note_limit))) =
       [JObj [(''noteIndex'', JNum (Fin 0)), (''delay'', JNum (Fin 0))],
        JObj [(''noteIndex'', JNum (Fin 4)), (''delay'', JNum (Fin 50))]]
   \<and> \<not> isRecording (snd (recordNote \<lparr>detail_noteIndex = Fin 7, detail_timestamp = 1200\<rparr>
         (record_all two_details (snd (startRecording 1000 two_note_limit)))))"
proof -
  have h: "\<not> isPlaying two_note_limit" "maxRecordingLength two_note_limit = real (length two_details)"
    by (simp_all add: two_note_limit_def two_details_def setMaxRecordingLength_def
        page_Controls_def new_Controls_def)
  show ?thesis
    using h C2_recording_stops_on_the_event_after_the_maximum [OF h, of 1000
        "\<lparr>detail_noteIndex = Fin 7, detail_timestamp = 1200\<rparr>"
        "\<lparr>detail_noteIndex = Fin 7, detail_timestamp = 1300\<rparr>"]
    by (simp add: two_details_def recorded_entry_def)
qed

lemma playing_Controls_eq:
  "playing_Controls =
     \<lparr>recordBtn = Some \<lparr>disabled = True, highlighted = False, caption = ''Record''\<rparr>,
      playBtn = Some \<lparr>disabled = False, highlighted = True, caption = ''Stop''\<rparr>,
      clearBtn = Some \<lparr>disabled = True, highlighted = False, caption = ''Clear''\<rparr>,
      recordingStatus = Some Status_Playing,
      isRecording = False, isPlaying = True,
      recordedSequence = [JObj [(''noteIndex'', JNum (Fin 0)), (''delay'', JNum (Fin 0))]],
      recordingStartTime = 1000, maxRecordingLength = 100, playbackTimeout = None,
      listening = True\<rparr>"
  by (simp add: playing_Controls_def one_note_recording_eq playRecording_begin_def
      stopRecording_def ui_defs)

text \<open>
  Claim C4 as stated fails: \<open>clearRecording()\<close> during playback ends the playback and
  empties the sequence.
\<close>

theorem C4_counterexample:
  "isPlaying playing_Controls \<and> recordedSequence playing_Controls \<noteq> []
   \<and> \<not> isPlaying (snd (clearRecording playing_Controls))
   \<and> recordedSequence (snd (clearRecording playing_Controls)) = []"
  by (simp add: playing_Controls_eq clearRecording_def stopPlayback_def ui_defs)

text \<open>
  Claim C4, amended. While playback is in progress, on a page that has the three
  buttons, \<open>clearRecording()\<close> first calls \<open>stopPlayback()\<close> and then discards the sequence:
  it completes, \<open>isPlaying\<close> is false afterwards, no playback timer is pending and the
  recorded sequence is empty.
\<close>

theorem C4_clear_while_playing_stops_and_discards:
  assumes "isPlaying c" and "playBtn c = Some p" and "recordBtn c = Some r" and "clearBtn c = Some q"
  shows "fst (clearRecording c) = Inr ()
         \<and> \<not> isPlaying (snd (clearRecording c))
         \<and> playbackTimeout (snd (clearRecording c)) = None
         \<and> recordedSequence (snd (clearRecording c)) = []
         \<and> isRecording (snd (clearRecording c)) = isRecording c"
  using assms
  by (simp add: clearRecording_def stopPlayback_def ui_defs split: option.splits)

theorem C4_witness:
  "isPlaying playing_Controls
   \<and> fst (clearRecording playing_Controls) = Inr ()
   \<and> \<not> isPlaying (snd (clearRecording playing_Controls))
   \<and> recordedSequence (snd (clearRecording playing_Controls)) = []"
  using C4_clear_while_playing_stops_and_discards [of playing_Controls
      "\<lparr>disabled = False, highlighted = True, caption = ''Stop''\<rparr>"
      "\<lparr>disabled = True, highlighted = False, caption = ''Record''\<rparr>"
      "\<lparr>disabled = True, highlighted = False, caption = ''Clear''\<rparr>"]
  by (simp add: playing_Controls_eq)

subsection \<open>Export and import\<close>

lemmas reader_defs = parse_json_def is_ws_def digit_of_def read_unsigned_def quoted_def newline_def

lemma one_note_text_parses:
  "parse_json one_note_text =
     Some (JArr [JObj [(''noteIndex'', JNum (Fin 1)), (''delay'', JNum (Fin 0))]])"
  by (simp add: one_note_text_def reader_defs)


lemma three_notes_text_parses:
  "parse_json three_notes_text =
     Some (JArr [JObj [(''noteIndex'', JNum (Fin 0)), (''delay'', JNum (Fin 0))],
                 JObj [(''noteIndex'', JNum (Fin 2)), (''delay'', JNum (Fin 50))],
                 JObj [(''noteIndex'', JNum (Fin 4)), (''delay'', JNum (Fin 200))]])"
  by (simp add: three_notes_text_def reader_defs)

text \<open>
  Claim C5 at a \<open>Controls\<close> object whose buttons are \<open>null\<close> (as the constructor leaves
  it, or after \<open>initialize()\<close> on a page without the control elements) and the text
  \<open>[{"noteIndex":1,"delay":0}]\<close>. The text parses and every element passes the
  validation, so the sequence is replaced; then \<open>this.playBtn.disabled = false\<close> raises
  TypeError inside the \<open>try\<close> block and \<open>importSequence\<close> answers \<open>false\<close>: the answer is
  \<open>false\<close> although the stored sequence has changed.
\<close>

theorem C5_import_answers_false_after_replacing:
  "importSequence parse_json one_note_text new_Controls =
     (False, new_Controls\<lparr>recordedSequence :=
        [JObj [(''noteIndex'', JNum (Fin 1)), (''delay'', JNum (Fin 0))]]\<rparr>)
   \<and> recordedSequence new_Controls = []"
  by (simp add: importSequence_def one_note_text_parses new_Controls_def ui_defs)

lemma validate_note_iff:
  "validate_notes (note # rest) = Inr () \<longleftrightarrow> has_number_fields note \<and> validate_notes rest = Inr ()"
  by (cases "note") (auto split: sum.splits)

lemma validate_notes_iff:
  "validate_notes sequence = Inr () \<longleftrightarrow> list_all has_number_fields sequence"
  by (induction sequence) (simp_all add: validate_note_iff del: validate_notes.simps(2))



lemma recordNote_valid:
  "validate_notes (recordedSequence c) = Inr () \<Longrightarrow>
   validate_notes (recordedSequence (snd (recordNote d c))) = Inr ()"
  by (simp add: recordNote_def stopRecording_fields Let_def updateRecordingStatus_def
      validate_notes_iff split: option.splits)

lemma record_all_valid:
  "validate_notes (recordedSequence c) = Inr () \<Longrightarrow>
   validate_notes (recordedSequence (record_all ds c)) = Inr ()"
  by (induction ds arbitrary: c) (simp_all add: recordNote_valid)







lemma skip_ws_keep: "\<not> is_ws c \<Longrightarrow> skip_ws (c # s) = c # s"
  by simp


















lemma recorded_entry_integer:
  assumes "detail_noteIndex d = Fin (of_int i)" and "\<bar>real_of_int i\<bar> < 10 ^ 21"
    and "detail_timestamp d - start = of_int ms" and "\<bar>real_of_int ms\<bar> < 10 ^ 21"
  shows "integer_note (recorded_entry start d)"
  using assms by (simp add: recorded_entry_def integer_note_def is_integer_number_def)

lemma recordNote_integer:
  assumes "list_all integer_note (recordedSequence c)"
    and "detail_noteIndex d = Fin (of_int i)" and "\<bar>real_of_int i\<bar> < 10 ^ 21"
    and "detail_timestamp d - recordingStartTime c = of_int ms" and "\<bar>real_of_int ms\<bar> < 10 ^ 21"
  shows "list_all integer_note (recordedSequence (snd (recordNote d c)))"
proof -
  have "integer_note (recorded_entry (recordingStartTime c) d)"
    using assms(2-5) by (rule recorded_entry_integer)
  then show ?thesis
    using assms(1)
    by (simp add: recordNote_def stopRecording_fields recorded_entry_def Let_def
        updateRecordingStatus_def split: option.splits)
qed







subsection \<open>Playback\<close>













end
